theory Spec2Isabelle
  imports Main
begin

section \<open>Strings and the e-mail pattern\<close>

text \<open>
  Strings are lists of \<^typ>\<open>char\<close>; a character stands for a JavaScript code unit below
  256.  The regular expression of \<open>register\<close> is embedded as a value of \<open>regexp\<close> and
  run by a derivative matcher; with both anchors \<open>^\<close> and \<open>$\<close> and no flag,
  \<open>RegExp.test\<close> is whole-string membership in the language of the pattern.
\<close>

definition code :: "char \<Rightarrow> nat" where
  "code c = of_char c"

definition between :: "nat \<Rightarrow> nat \<Rightarrow> char \<Rightarrow> bool" where
  "between lo hi c = (lo \<le> code c \<and> code c \<le> hi)"

definition white_space :: "char \<Rightarrow> bool" where
  \<comment> \<open>\<open>\s\<close>: tab, line feed, vertical tab, form feed, carriage return, space, no-break space\<close>
  "white_space c = (code c \<in> {9, 10, 11, 12, 13, 32, 160})"

definition any_char :: "char \<Rightarrow> bool" where
  \<comment> \<open>\<open>.\<close>: every character but the line terminators\<close>
  "any_char c = (code c \<notin> {10, 13})"

definition digit :: "char \<Rightarrow> bool" where
  \<comment> \<open>\<open>[0-9]\<close>\<close>
  "digit c = between 48 57 c"

definition letter :: "char \<Rightarrow> bool" where
  \<comment> \<open>\<open>[a-zA-Z]\<close>\<close>
  "letter c = (between 97 122 c \<or> between 65 90 c)"

definition label_char :: "char \<Rightarrow> bool" where
  \<comment> \<open>\<open>[a-zA-Z\-0-9]\<close>\<close>
  "label_char c = (between 97 122 c \<or> between 65 90 c \<or> code c = 45 \<or> between 48 57 c)"

definition local_char :: "char \<Rightarrow> bool" where
  \<comment> \<open>\<open>[^<>()[\]\\.,;:\s@"]\<close>\<close>
  "local_char c = (\<not> (code c \<in> {60, 62, 40, 41, 91, 93, 92, 46, 44, 59, 58, 64, 34}
     \<or> white_space c))"

definition is_char :: "nat \<Rightarrow> char \<Rightarrow> bool" where
  "is_char n c = (code c = n)"

datatype regexp =
    Never
  | Empty
  | Class "char \<Rightarrow> bool"
  | Cat regexp regexp
  | Or regexp regexp
  | Star regexp

fun nullable :: "regexp \<Rightarrow> bool" where
  "nullable Never = False"
| "nullable Empty = True"
| "nullable (Class p) = False"
| "nullable (Cat r s) = (nullable r \<and> nullable s)"
| "nullable (Or r s) = (nullable r \<or> nullable s)"
| "nullable (Star r) = True"

fun deriv :: "char \<Rightarrow> regexp \<Rightarrow> regexp" where
  "deriv c Never = Never"
| "deriv c Empty = Never"
| "deriv c (Class p) = (if p c then Empty else Never)"
| "deriv c (Cat r s) =
     (if nullable r then Or (Cat (deriv c r) s) (deriv c s) else Cat (deriv c r) s)"
| "deriv c (Or r s) = Or (deriv c r) (deriv c s)"
| "deriv c (Star r) = Cat (deriv c r) (Star r)"

definition test :: "regexp \<Rightarrow> string \<Rightarrow> bool" where
  "test r s = nullable (fold deriv s r)"

definition Plus :: "regexp \<Rightarrow> regexp" where
  \<comment> \<open>\<open>r+\<close>\<close>
  "Plus r = Cat r (Star r)"

definition upto3 :: "regexp \<Rightarrow> regexp" where
  \<comment> \<open>\<open>r{1,3}\<close>\<close>
  "upto3 r = Cat r (Or Empty (Cat r (Or Empty r)))"

definition atleast2 :: "regexp \<Rightarrow> regexp" where
  \<comment> \<open>\<open>r{2,}\<close>\<close>
  "atleast2 r = Cat r (Cat r (Star r))"

definition local_part :: regexp where
  \<comment> \<open>\<open>([^<>()[\]\\.,;:\s@"]+(\.[^<>()[\]\\.,;:\s@"]+)*)|(".+")\<close>\<close>
  "local_part =
     Or (Cat (Plus (Class local_char))
             (Star (Cat (Class (is_char 46)) (Plus (Class local_char)))))
        (Cat (Class (is_char 34)) (Cat (Plus (Class any_char)) (Class (is_char 34))))"

definition domain_part :: regexp where
  \<comment> \<open>\<open>(\[[0-9]{1,3}\.[0-9]{1,3}\.[0-9]{1,3}\.[0-9]{1,3}])|(([a-zA-Z\-0-9]+\.)+[a-zA-Z]{2,})\<close>\<close>
  "domain_part =
     Or (Cat (Class (is_char 91))
          (Cat (upto3 (Class digit)) (Cat (Class (is_char 46))
          (Cat (upto3 (Class digit)) (Cat (Class (is_char 46))
          (Cat (upto3 (Class digit)) (Cat (Class (is_char 46))
          (Cat (upto3 (Class digit)) (Class (is_char 93))))))))))
        (Cat (Plus (Cat (Plus (Class label_char)) (Class (is_char 46))))
             (atleast2 (Class letter)))"

definition emailRegExp :: regexp where
  "emailRegExp = Cat local_part (Cat (Class (is_char 64)) domain_part)"


section \<open>Data model\<close>

text \<open>
  Modelled from the spec: the entity classes \<open>User\<close> and \<open>Token\<close> (\<open>model/User\<close>,
  \<open>model/Token\<close>) are not among the sources; their columns are the ones the controller
  reads and writes (\<open>_id\<close>, \<open>given_name\<close>, \<open>maiden_name\<close>, \<open>email_address\<close>,
  \<open>password\<close>, \<open>is_activated\<close>; \<open>_id\<close>, \<open>user_id\<close>), and the activation flag
  defaults to false.  The timestamp columns, which no operation touches, are left out.
  Column \<open>c\<close> of a User is \<open>u_c\<close>, column \<open>c\<close> of a Token is \<open>t_c\<close>.
\<close>

record User =
  u_id :: string
  u_given_name :: string
  u_maiden_name :: string
  u_email_address :: string
  u_password :: string
  u_is_activated :: bool

record Token =
  t_id :: string
  t_user_id :: string

text \<open>The request body, after \<open>ValidateRequest\<close> has checked presence and trimmed.\<close>

record body =
  given_name :: string
  maiden_name :: string
  email_address :: string
  password :: string
  password_confirmation :: string
  token :: string

text \<open>
  The exceptions of \<open>ts-httpexceptions\<close> that the controller imports: \<open>BadRequest\<close>
  (status 400) and \<open>NotFound\<close> (status 404).
\<close>

datatype exception = BadRequest string | NotFound string

fun status :: "exception \<Rightarrow> nat" where
  "status (BadRequest m) = 400"
| "status (NotFound m) = 404"

text \<open>A JavaScript object with string and boolean properties, in property order.\<close>

datatype jsvalue = Str string | Bool bool

type_synonym object = "(string \<times> jsvalue) list"

definition object_of :: "User \<Rightarrow> object" where
  "object_of user =
     [(''_id'', Str (u_id user)),
      (''given_name'', Str (u_given_name user)),
      (''maiden_name'', Str (u_maiden_name user)),
      (''email_address'', Str (u_email_address user)),
      (''password'', Str (u_password user)),
      (''is_activated'', Bool (u_is_activated user))]"

definition omit :: "string \<Rightarrow> object \<Rightarrow> object" where
  \<comment> \<open>\<open>const { password, ...payload } = user\<close>\<close>
  "omit key obj = filter (\<lambda>p. fst p \<noteq> key) obj"

record mail =
  mail_to :: string
  mail_from :: string
  subject :: string
  html :: string

section \<open>Collaborators\<close>

text \<open>
  The libraries and the configuration are parameters: \<open>bcrypt\<close> (\<open>hashSync\<close> takes the
  randomness of its salt as a first argument), \<open>jsonwebtoken\<close>, the secret and the base
  URL of the configuration, and the primary keys the storage generates.
\<close>

record env =
  hashSync :: "nat \<Rightarrow> string \<Rightarrow> nat \<Rightarrow> string"
  compareSync :: "string \<Rightarrow> string \<Rightarrow> bool"
  sign :: "object \<Rightarrow> string \<Rightarrow> string"
  secret :: string
  baseURL :: string
  primary_key :: "nat \<Rightarrow> string"

record database =
  users :: "User list"
  tokens :: "Token list"

datatype call = StartTransaction | Commit | Rollback | FindOne | Save | Remove | Send

text \<open>
  The world outside the controller: the storage, the open transaction (the contents to
  restore on rollback), the mails sent, the log of the calls made to the storage and to
  the mail service, and the counters of generated keys and salts.  The storage and the
  mail service always answer: the only exceptions are the ones the controller throws.
\<close>

record world =
  db :: database
  snapshot :: "database option"
  outbox :: "mail list"
  calls :: "call list"
  generated :: nat
  salted :: nat

type_synonym 'a action = "world \<Rightarrow> (exception + 'a) \<times> world"

definition resolve :: "'a \<Rightarrow> 'a action" where
  "resolve x w = (Inr x, w)"

definition reject :: "exception \<Rightarrow> 'a action" where
  \<comment> \<open>\<open>throw\<close>\<close>
  "reject e w = (Inl e, w)"

definition await :: "'a action \<Rightarrow> ('a \<Rightarrow> 'b action) \<Rightarrow> 'b action" where
  "await m k w = (case m w of (Inl e, w') \<Rightarrow> (Inl e, w') | (Inr x, w') \<Rightarrow> k x w')"

definition try_catch :: "'a action \<Rightarrow> (exception \<Rightarrow> 'a action) \<Rightarrow> 'a action" where
  "try_catch m h w = (case m w of (Inl e, w') \<Rightarrow> h e w' | (Inr x, w') \<Rightarrow> (Inr x, w'))"

definition logged :: "call \<Rightarrow> world \<Rightarrow> world" where
  "logged c w = w\<lparr>calls := calls w @ [c]\<rparr>"

text \<open>
  Modelled from the spec: \<open>DatabaseService\<close> (\<open>services/DatabaseService\<close>) is not among the
  sources.  \<open>startTransaction\<close>, \<open>commit\<close> and \<open>rollback\<close> are the standard atomic unit of
  work: writes are visible at once inside the transaction, \<open>rollback\<close> restores the
  contents the storage had when the transaction was opened, \<open>commit\<close> keeps the writes.
\<close>

definition startTransaction :: "unit action" where
  \<comment> \<open>Modelled from the spec: \<open>DatabaseService.startTransaction\<close>, the unit of work opens\<close>
  "startTransaction w = (Inr (), logged StartTransaction (w\<lparr>snapshot := Some (db w)\<rparr>))"

definition commit :: "unit action" where
  \<comment> \<open>Modelled from the spec: \<open>DatabaseService.commit\<close>, the writes are kept\<close>
  "commit w = (Inr (), logged Commit (w\<lparr>snapshot := None\<rparr>))"

definition rollback :: "unit action" where
  \<comment> \<open>Modelled from the spec: \<open>DatabaseService.rollback\<close>, the writes are undone\<close>
  "rollback w =
     (Inr (), logged Rollback
        (w\<lparr>db := (case snapshot w of None \<Rightarrow> db w | Some d \<Rightarrow> d), snapshot := None\<rparr>))"

text \<open>The entity manager: \<open>findOne\<close>, \<open>save\<close> and \<open>remove\<close> on the two tables.\<close>

definition findOne_User :: "string \<Rightarrow> User option action" where
  \<comment> \<open>\<open>manager.findOne(User, { email_address })\<close>\<close>
  "findOne_User email w =
     (Inr (find (\<lambda>u. u_email_address u = email) (users (db w))), logged FindOne w)"

definition findOne_Token :: "string \<Rightarrow> Token option action" where
  \<comment> \<open>\<open>manager.findOne(Token, id)\<close>\<close>
  "findOne_Token k w = (Inr (find (\<lambda>t. t_id t = k) (tokens (db w))), logged FindOne w)"

definition new_User :: "string \<Rightarrow> string \<Rightarrow> string \<Rightarrow> string \<Rightarrow> string \<Rightarrow> User" where
  \<comment> \<open>\<open>new User()\<close> with its four fields assigned, under the key the storage gives it;
      Modelled from the spec: the activation flag of the missing class \<open>User\<close> defaults to false\<close>
  "new_User k given maiden email hash =
     \<lparr>u_id = k, u_given_name = given, u_maiden_name = maiden, u_email_address = email,
      u_password = hash, u_is_activated = False\<rparr>"

definition save_new_User ::
  "env \<Rightarrow> string \<Rightarrow> string \<Rightarrow> string \<Rightarrow> string \<Rightarrow> User action" where
  \<comment> \<open>\<open>manager.save\<close> of an entity that has no primary key yet: an insert\<close>
  "save_new_User env given maiden email hash w =
     (let user = new_User (primary_key env (generated w)) given maiden email hash
      in (Inr user,
          logged Save (w\<lparr>db := (db w)\<lparr>users := users (db w) @ [user]\<rparr>,
                         generated := Suc (generated w)\<rparr>)))"

definition save_new_Token :: "env \<Rightarrow> string \<Rightarrow> Token action" where
  \<comment> \<open>\<open>new Token()\<close> with \<open>user_id\<close> assigned, then \<open>manager.save\<close>: an insert\<close>
  "save_new_Token env owner w =
     (let t = \<lparr>t_id = primary_key env (generated w), t_user_id = owner\<rparr>
      in (Inr t,
          logged Save (w\<lparr>db := (db w)\<lparr>tokens := tokens (db w) @ [t]\<rparr>,
                         generated := Suc (generated w)\<rparr>)))"

definition save_User :: "User \<Rightarrow> User action" where
  \<comment> \<open>\<open>manager.save\<close> of an entity that has its primary key: update the row, or insert it\<close>
  "save_User user w =
     (let rows = users (db w);
          rows' = (if u_id user \<in> set (map u_id rows)
                   then map (\<lambda>u. if u_id u = u_id user then user else u) rows
                   else rows @ [user])
      in (Inr user, logged Save (w\<lparr>db := (db w)\<lparr>users := rows'\<rparr>\<rparr>)))"

definition remove_Token :: "Token \<Rightarrow> unit action" where
  \<comment> \<open>\<open>manager.remove(Token, token)\<close>\<close>
  "remove_Token t w =
     (Inr (), logged Remove
        (w\<lparr>db := (db w)\<lparr>tokens := filter (\<lambda>x. t_id x \<noteq> t_id t) (tokens (db w))\<rparr>\<rparr>))"

definition send :: "mail \<Rightarrow> unit action" where
  \<comment> \<open>\<open>SendGridMail.send(message)\<close>\<close>
  "send m w = (Inr (), logged Send (w\<lparr>outbox := outbox w @ [m]\<rparr>))"

definition hash_password :: "env \<Rightarrow> string \<Rightarrow> nat \<Rightarrow> string action" where
  \<comment> \<open>\<open>hashSync(data, rounds)\<close>: draws a salt\<close>
  "hash_password env pw rounds w =
     (Inr (hashSync env (salted w) pw rounds), w\<lparr>salted := Suc (salted w)\<rparr>)"


section \<open>The mails\<close>

definition quote :: string where
  "quote = [CHR 0x22]"

definition nl :: string where
  "nl = [CHR 0x0A]"

definition tab :: string where
  "tab = [CHR 0x09]"

definition signature_lines :: string where
  "signature_lines =
     tab @ ''Regards,<br />'' @ nl @ tab @ ''MyCashier Operation Team'' @ nl @ ''</div>'' @ nl"

definition greeting :: "User \<Rightarrow> string" where
  "greeting user = nl @ ''<div>'' @ nl @ tab @ ''Hi, '' @ u_given_name user @ ''!<br /><br />'' @ nl"

definition anchor :: "string \<Rightarrow> string" where
  "anchor link = ''<a href='' @ quote @ link @ quote @ ''>'' @ link @ ''</a>''"

definition link_to :: "env \<Rightarrow> User \<Rightarrow> Token \<Rightarrow> string" where
  \<comment> \<open>\<open>activationLink\<close> in \<open>register\<close>, \<open>recoverLink\<close> in \<open>forgetPassword\<close>: the same expression\<close>
  "link_to env user tok =
     baseURL env @ ''activate?email_address='' @ u_email_address user @ ''&token='' @ t_id tok"

definition activation_mail :: "env \<Rightarrow> User \<Rightarrow> Token \<Rightarrow> mail" where
  "activation_mail env user tok =
     \<lparr>mail_to = u_email_address user,
      mail_from = ''noreply@mycashier.pw'',
      subject = ''Active your MyCashier account!'',
      html = greeting user @ tab
        @ ''Welcome to MyCashier! Please active your account by clicking on this link: ''
        @ anchor (link_to env user tok) @ ''<br /><br />'' @ nl @ signature_lines\<rparr>"

definition welcome_mail :: "User \<Rightarrow> mail" where
  "welcome_mail user =
     \<lparr>mail_to = u_email_address user,
      mail_from = ''noreply@mycashier.pw'',
      subject = ''Welcome to MyCashier!'',
      html = greeting user @ tab
        @ ''Welcome to MyCashier! Your account has been successfully activated. You now may sign in to enjoy our services.<br /><br />''
        @ nl @ signature_lines\<rparr>"

definition recovery_mail :: "env \<Rightarrow> User \<Rightarrow> Token \<Rightarrow> mail" where
  "recovery_mail env user tok =
     \<lparr>mail_to = u_email_address user,
      mail_from = ''noreply@mycashier.pw'',
      subject = ''Recover your MyCashier account'',
      html = greeting user @ tab
        @ ''To recover your MyCashier account, please click this link: ''
        @ anchor (link_to env user tok) @ ''<br /><br />'' @ nl @ signature_lines\<rparr>"

section \<open>AuthenticationController\<close>

definition signIn :: "env \<Rightarrow> body \<Rightarrow> string action" where
  \<comment> \<open>the result is the \<open>token\<close> of the object \<open>{ token }\<close>\<close>
  "signIn env body =
     await (findOne_User (email_address body)) (\<lambda>found.
       case found of
         None \<Rightarrow> reject (BadRequest ''Sign in failed! Please check your email address or password.'')
       | Some user \<Rightarrow>
           if compareSync env (password body) (u_password user)
           then reject (BadRequest ''Sign in failed! Please check your email address or password.'')
           else resolve (sign env (omit ''password'' (object_of user)) (secret env)))"

definition register :: "env \<Rightarrow> body \<Rightarrow> string action" where
  "register env body =
     try_catch
       (await startTransaction (\<lambda>_.
          if \<not> test emailRegExp (email_address body)
          then reject (BadRequest (''Registration failed. Email address '' @ quote
                 @ email_address body @ quote @ '' is not a valid email address.''))
          else
        await (findOne_User (email_address body)) (\<lambda>found.
          if found \<noteq> None
          then reject (BadRequest (''User with email address '' @ email_address body
                 @ '' is already registered.''))
          else if password body \<noteq> password_confirmation body
          then reject (BadRequest ''Your password did not match confirmation.'')
          else
        await (hash_password env (password body) 10) (\<lambda>hash.
        await (save_new_User env (given_name body) (maiden_name body) (email_address body) hash)
          (\<lambda>user.
        await (save_new_Token env (u_id user)) (\<lambda>tok.
        await (send (activation_mail env user tok)) (\<lambda>_.
        await commit (\<lambda>_.
        resolve ''You are successfully registered. Please check your email inbox to activate your account.''))))))))
       (\<lambda>error. await rollback (\<lambda>_. reject error))"

definition activate :: "env \<Rightarrow> body \<Rightarrow> string action" where
  "activate env body =
     try_catch
       (await startTransaction (\<lambda>_.
        await (findOne_User (email_address body)) (\<lambda>found.
          case found of
            None \<Rightarrow> reject (BadRequest (''There is no account registered with email address ''
                       @ email_address body @ ''.''))
          | Some user \<Rightarrow>
        await (findOne_Token (token body)) (\<lambda>found_token.
          case found_token of
            None \<Rightarrow> reject (BadRequest
                       ''Your activation token is invalid. Please re-check your activation link!'')
          | Some tok \<Rightarrow>
          if t_user_id tok \<noteq> u_id user
          then reject (BadRequest
                 ''Your activation token is invalid. Please re-check your activation link!'')
          else
        await (save_User (user\<lparr>u_is_activated := True\<rparr>)) (\<lambda>user.
        await (remove_Token tok) (\<lambda>_.
        await (send (welcome_mail user)) (\<lambda>_.
        await commit (\<lambda>_.
        resolve ''Your account has been successfully activated. You now may sign in to enjoy our services.''))))))))
       (\<lambda>error. await rollback (\<lambda>_. reject error))"


definition forgetPassword :: "env \<Rightarrow> body \<Rightarrow> string action" where
  "forgetPassword env body =
     try_catch
       (await startTransaction (\<lambda>_.
        await (findOne_User (email_address body)) (\<lambda>found.
          case found of
            None \<Rightarrow> reject (BadRequest (''There is no account registered with email address ''
                       @ email_address body @ ''.''))
          | Some user \<Rightarrow>
        await (save_new_Token env (u_id user)) (\<lambda>tok.
        await (send (recovery_mail env user tok)) (\<lambda>_.
        await commit (\<lambda>_.
        resolve ''A recovery email has been sent to your email address. Please check your email inbox to recover your account.''))))))
       (\<lambda>error. await rollback (\<lambda>_. reject error))"

definition recover :: "env \<Rightarrow> body \<Rightarrow> string action" where
  "recover env body =
     try_catch
       (await startTransaction (\<lambda>_.
        await (findOne_User (email_address body)) (\<lambda>found.
          case found of
            None \<Rightarrow> reject (BadRequest (''There is no account registered with email address ''
                       @ email_address body @ ''.''))
          | Some user \<Rightarrow>
        await (findOne_Token (token body)) (\<lambda>found_token.
          case found_token of
            None \<Rightarrow> reject (BadRequest
                       ''Your recovery token is invalid. Please re-check your activation link!'')
          | Some tok \<Rightarrow>
          if t_user_id tok \<noteq> u_id user
          then reject (BadRequest
                 ''Your recovery token is invalid. Please re-check your activation link!'')
          else if password body \<noteq> password_confirmation body
          then reject (BadRequest ''Your password did not match confirmation.'')
          else
        await (hash_password env (password body) 10) (\<lambda>hash.
        await (save_User (user\<lparr>u_password := hash\<rparr>)) (\<lambda>user.
        await (remove_Token tok) (\<lambda>_.
        await commit (\<lambda>_.
        resolve ''Your account has been successfully recovered. You now may sign in with newly created passwords.''))))))))
       (\<lambda>error. await rollback (\<lambda>_. reject error))"

section \<open>A test double for the collaborators\<close>

text \<open>
  For running the controller on concrete requests: a stand-in for \<open>bcrypt\<close> whose digest is
  the salt, a separator and the data, a stand-in for \<open>jsonwebtoken\<close> that lists the
  property names of the payload, and keys \<open>k\<close>, \<open>kx\<close>, \<open>kxx\<close>, ...
\<close>

definition double_hashSync :: "nat \<Rightarrow> string \<Rightarrow> nat \<Rightarrow> string" where
  "double_hashSync salt data rounds = replicate salt CHR ''s'' @ ''$'' @ data"

definition double_compareSync :: "string \<Rightarrow> string \<Rightarrow> bool" where
  "double_compareSync data digest = (dropWhile (\<lambda>c. c = CHR ''s'') digest = ''$'' @ data)"

definition double_sign :: "object \<Rightarrow> string \<Rightarrow> string" where
  "double_sign payload key = concat (map (\<lambda>p. fst p @ '';'') payload)"

definition double :: env where
  "double =
     \<lparr>hashSync = double_hashSync,
      compareSync = double_compareSync,
      sign = double_sign,
      secret = ''secret'',
      baseURL = ''http://localhost/'',
      primary_key = (\<lambda>n. ''k'' @ replicate n CHR ''x'')\<rparr>"

definition no_body :: body where
  "no_body =
     \<lparr>given_name = [], maiden_name = [], email_address = [], password = [],
      password_confirmation = [], token = []\<rparr>"

definition empty_world :: world where
  "empty_world =
     \<lparr>db = \<lparr>users = [], tokens = []\<rparr>, snapshot = None, outbox = [], calls = [],
      generated = 0, salted = 0\<rparr>"

definition ann :: body where
  "ann = no_body\<lparr>given_name := ''Ann'', maiden_name := ''Lee'', email_address := ''ann@x.com'',
     password := ''Secret123!'', password_confirmation := ''Secret123!''\<rparr>"


definition bob :: body where
  "bob = no_body\<lparr>given_name := ''Bob'', maiden_name := ''Ray'', email_address := ''bob@x.com'',
     password := ''hunter2'', password_confirmation := ''hunter2''\<rparr>"

definition ann_row :: User where
  "ann_row =
     \<lparr>u_id = ''k'', u_given_name = ''Ann'', u_maiden_name = ''Lee'',
      u_email_address = ''ann@x.com'', u_password = double_hashSync 0 ''Secret123!'' 10,
      u_is_activated = False\<rparr>"

definition bob_row :: User where
  "bob_row =
     \<lparr>u_id = ''kxx'', u_given_name = ''Bob'', u_maiden_name = ''Ray'',
      u_email_address = ''bob@x.com'', u_password = double_hashSync 1 ''hunter2'' 10,
      u_is_activated = False\<rparr>"

definition ann_registered :: world where
  \<comment> \<open>Ann has registered and holds the token \<open>kx\<close>\<close>
  "ann_registered =
     \<lparr>db = \<lparr>users = [ann_row], tokens = [\<lparr>t_id = ''kx'', t_user_id = ''k''\<rparr>]\<rparr>,
      snapshot = None, outbox = [], calls = [], generated = 2, salted = 1\<rparr>"

definition both_registered :: world where
  \<comment> \<open>Ann and Bob have registered; Ann holds the token \<open>kx\<close>, Bob the token \<open>kxxx\<close>\<close>
  "both_registered =
     \<lparr>db = \<lparr>users = [ann_row, bob_row],
            tokens = [\<lparr>t_id = ''kx'', t_user_id = ''k''\<rparr>, \<lparr>t_id = ''kxxx'', t_user_id = ''kxx''\<rparr>]\<rparr>,
      snapshot = None, outbox = [], calls = [], generated = 4, salted = 2\<rparr>"

section \<open>Notions of the specification\<close>

definition user_exists :: "world \<Rightarrow> string \<Rightarrow> bool" where
  \<comment> \<open>a User exists for the e-mail address\<close>
  "user_exists w email = (email \<in> set (map u_email_address (users (db w))))"

definition token_exists :: "world \<Rightarrow> string \<Rightarrow> bool" where
  \<comment> \<open>a VerificationToken with the id exists\<close>
  "token_exists w k = (k \<in> set (map t_id (tokens (db w))))"

definition user_of :: "world \<Rightarrow> string \<Rightarrow> User option" where
  \<comment> \<open>the User the storage holds for an e-mail address\<close>
  "user_of w email = find (\<lambda>u. u_email_address u = email) (users (db w))"

definition token_of :: "world \<Rightarrow> string \<Rightarrow> Token option" where
  \<comment> \<open>the Token the storage holds for an id\<close>
  "token_of w k = find (\<lambda>t. t_id t = k) (tokens (db w))"

definition unique_keys :: "database \<Rightarrow> bool" where
  \<comment> \<open>the uniqueness invariants of the data model: one User per e-mail address, one Token per id\<close>
  "unique_keys d = (distinct (map u_email_address (users d)) \<and> distinct (map t_id (tokens d)))"

definition owned_token_stored :: "world \<Rightarrow> string \<Rightarrow> User \<Rightarrow> bool" where
  \<comment> \<open>a stored Token has the id and belongs to the User\<close>
  "owned_token_stored w k u =
     ((k, u_id u) \<in> set (map (\<lambda>t. (t_id t, t_user_id t)) (tokens (db w))))"

definition fails_with_NotFound :: "exception + 'a \<Rightarrow> bool" where
  "fails_with_NotFound r = (case r of Inl (NotFound m) \<Rightarrow> True | _ \<Rightarrow> False)"

definition made :: "world \<Rightarrow> world \<Rightarrow> call list" where
  \<comment> \<open>the calls made between two worlds\<close>
  "made w w' = drop (length (calls w)) (calls w')"

definition transactional :: "bool \<Rightarrow> call list \<Rightarrow> bool" where
  \<comment> \<open>the calls of one operation: the transaction is opened first; a success ends with the
      only commit and never rolls back, a failure ends with a rollback and never commits\<close>
  "transactional ok cs =
     (case cs of
        [] \<Rightarrow> False
      | c # rest \<Rightarrow>
          c = StartTransaction \<and> rest \<noteq> [] \<and>
          last rest = (if ok then Commit else Rollback) \<and>
          count_list rest Commit = (if ok then 1 else 0) \<and>
          count_list rest Rollback = (if ok then 0 else 1))"

section \<open>Lists, actions and storage\<close>

lemmas action_defs = await_def try_catch_def resolve_def reject_def

lemmas storage_defs = startTransaction_def commit_def rollback_def findOne_User_def
  findOne_Token_def save_new_User_def save_new_Token_def save_User_def remove_Token_def
  send_def hash_password_def logged_def

lemmas double_defs = double_def double_hashSync_def double_compareSync_def double_sign_def
  no_body_def ann_def bob_def ann_row_def bob_row_def ann_registered_def both_registered_def
  empty_world_def

lemmas pattern_defs = test_def emailRegExp_def local_part_def domain_part_def Plus_def
  upto3_def atleast2_def local_char_def label_char_def letter_def digit_def any_char_def
  white_space_def between_def is_char_def code_def

lemma find_None_iff_absent: "find (\<lambda>x. f x = k) xs = None \<longleftrightarrow> k \<notin> set (map f xs)"
  by (induction xs) auto

lemma find_Some_mem: "find P xs = Some x \<Longrightarrow> x \<in> set xs \<and> P x"
  by (induction xs) (auto split: if_splits)

lemma find_unique:
  "distinct (map f xs) \<Longrightarrow> x \<in> set xs \<Longrightarrow> find (\<lambda>y. f y = f x) xs = Some x"
  by (induction xs) (auto simp: rev_image_eqI)

lemma find_after_update:
  "find (\<lambda>x. f x = k) xs = Some u \<Longrightarrow> f u' = k \<Longrightarrow>
   find (\<lambda>x. f x = k) (map (\<lambda>x. if g x = g u then u' else x) xs) = Some u'"
  by (induction xs) (auto split: if_splits)

lemma user_of_None: "user_of w email = None \<longleftrightarrow> \<not> user_exists w email"
  by (simp add: user_of_def user_exists_def find_None_iff_absent)

lemma user_of_stored:
  "unique_keys (db w) \<Longrightarrow> u \<in> set (users (db w)) \<Longrightarrow> user_of w (u_email_address u) = Some u"
  by (simp add: user_of_def unique_keys_def find_unique)


lemma token_of_None: "token_of w k = None \<longleftrightarrow> \<not> token_exists w k"
  by (simp add: token_of_def token_exists_def find_None_iff_absent)

lemma token_of_stored:
  "unique_keys (db w) \<Longrightarrow> t \<in> set (tokens (db w)) \<Longrightarrow> token_of w (t_id t) = Some t"
  by (simp add: token_of_def unique_keys_def find_unique)

section \<open>What each operation does, case by case\<close>

lemma signIn_result:
  "signIn env body w =
     ((case user_of w (email_address body) of
         None \<Rightarrow> Inl (BadRequest ''Sign in failed! Please check your email address or password.'')
       | Some user \<Rightarrow>
           if compareSync env (password body) (u_password user)
           then Inl (BadRequest ''Sign in failed! Please check your email address or password.'')
           else Inr (sign env (omit ''password'' (object_of user)) (secret env))),
      w\<lparr>calls := calls w @ [FindOne]\<rparr>)"
  by (simp add: signIn_def action_defs storage_defs user_of_def split: option.splits)

lemma activate_unknown_user:
  assumes "user_of w (email_address body) = None"
  shows "activate env body w =
    (Inl (BadRequest (''There is no account registered with email address '' @ email_address body @ ''.'')),
     w\<lparr>snapshot := None, calls := calls w @ [StartTransaction, FindOne, Rollback]\<rparr>)"
  using assms by (simp add: activate_def action_defs storage_defs user_of_def)

lemma activate_unknown_token:
  assumes "user_of w (email_address body) = Some user"
    and "token_of w (token body) = None"
  shows "activate env body w =
    (Inl (BadRequest ''Your activation token is invalid. Please re-check your activation link!''),
     w\<lparr>snapshot := None, calls := calls w @ [StartTransaction, FindOne, FindOne, Rollback]\<rparr>)"
  using assms by (simp add: activate_def action_defs storage_defs user_of_def token_of_def)

lemma activate_foreign_token:
  assumes "user_of w (email_address body) = Some user"
    and "token_of w (token body) = Some tok"
    and "t_user_id tok \<noteq> u_id user"
  shows "activate env body w =
    (Inl (BadRequest ''Your activation token is invalid. Please re-check your activation link!''),
     w\<lparr>snapshot := None, calls := calls w @ [StartTransaction, FindOne, FindOne, Rollback]\<rparr>)"
  using assms by (simp add: activate_def action_defs storage_defs user_of_def token_of_def)

lemma activate_own_token:
  assumes "user_of w (email_address body) = Some user"
    and "token_of w (token body) = Some tok"
    and "t_user_id tok = u_id user"
  shows "activate env body w =
    (Inr ''Your account has been successfully activated. You now may sign in to enjoy our services.'',
     w\<lparr>db := \<lparr>users = map (\<lambda>u. if u_id u = u_id user then user\<lparr>u_is_activated := True\<rparr> else u)
                          (users (db w)),
               tokens = filter (\<lambda>t. t_id t \<noteq> token body) (tokens (db w))\<rparr>,
       snapshot := None,
       outbox := outbox w @ [welcome_mail (user\<lparr>u_is_activated := True\<rparr>)],
       calls := calls w @ [StartTransaction, FindOne, FindOne, Save, Remove, Send, Commit]\<rparr>)"
proof -
  from assms(1) have "user \<in> set (users (db w))"
    by (auto simp: user_of_def dest: find_Some_mem)
  then have "u_id user \<in> u_id ` set (users (db w))" by (rule imageI)
  moreover from assms(2) have "t_id tok = token body"
    by (auto simp: token_of_def dest: find_Some_mem)
  ultimately show ?thesis
    using assms by (simp add: activate_def action_defs storage_defs Let_def user_of_def token_of_def)
qed

lemma register_invalid_email:
  assumes "\<not> test emailRegExp (email_address body)"
  shows "register env body w =
    (Inl (BadRequest (''Registration failed. Email address '' @ quote @ email_address body
            @ quote @ '' is not a valid email address.'')),
     w\<lparr>snapshot := None, calls := calls w @ [StartTransaction, Rollback]\<rparr>)"
  using assms by (simp add: register_def action_defs storage_defs)

lemma register_known_email:
  assumes "test emailRegExp (email_address body)"
    and "user_of w (email_address body) = Some user"
  shows "register env body w =
    (Inl (BadRequest (''User with email address '' @ email_address body
            @ '' is already registered.'')),
     w\<lparr>snapshot := None, calls := calls w @ [StartTransaction, FindOne, Rollback]\<rparr>)"
  using assms by (simp add: register_def action_defs storage_defs user_of_def)

lemma register_mismatch:
  assumes "test emailRegExp (email_address body)"
    and "user_of w (email_address body) = None"
    and "password body \<noteq> password_confirmation body"
  shows "register env body w =
    (Inl (BadRequest ''Your password did not match confirmation.''),
     w\<lparr>snapshot := None, calls := calls w @ [StartTransaction, FindOne, Rollback]\<rparr>)"
  using assms by (simp add: register_def action_defs storage_defs user_of_def)

lemma register_accepted:
  assumes "test emailRegExp (email_address body)"
    and "user_of w (email_address body) = None"
    and "password body = password_confirmation body"
  shows "register env body w =
    (let user = new_User (primary_key env (generated w)) (given_name body) (maiden_name body)
                  (email_address body) (hashSync env (salted w) (password body) 10);
         tok = \<lparr>t_id = primary_key env (Suc (generated w)), t_user_id = u_id user\<rparr>
     in (Inr ''You are successfully registered. Please check your email inbox to activate your account.'',
         w\<lparr>db := \<lparr>users = users (db w) @ [user], tokens = tokens (db w) @ [tok]\<rparr>,
           snapshot := None,
           outbox := outbox w @ [activation_mail env user tok],
           calls := calls w @ [StartTransaction, FindOne, Save, Save, Send, Commit],
           generated := Suc (Suc (generated w)),
           salted := Suc (salted w)\<rparr>))"
  using assms by (simp add: register_def action_defs storage_defs user_of_def Let_def)

lemma forgetPassword_unknown_user:
  assumes "user_of w (email_address body) = None"
  shows "forgetPassword env body w =
    (Inl (BadRequest (''There is no account registered with email address '' @ email_address body @ ''.'')),
     w\<lparr>snapshot := None, calls := calls w @ [StartTransaction, FindOne, Rollback]\<rparr>)"
  using assms by (simp add: forgetPassword_def action_defs storage_defs user_of_def)

lemma forgetPassword_known_user:
  assumes "user_of w (email_address body) = Some user"
  shows "forgetPassword env body w =
    (let tok = \<lparr>t_id = primary_key env (generated w), t_user_id = u_id user\<rparr>
     in (Inr ''A recovery email has been sent to your email address. Please check your email inbox to recover your account.'',
         w\<lparr>db := \<lparr>users = users (db w), tokens = tokens (db w) @ [tok]\<rparr>,
           snapshot := None,
           outbox := outbox w @ [recovery_mail env user tok],
           calls := calls w @ [StartTransaction, FindOne, Save, Send, Commit],
           generated := Suc (generated w)\<rparr>))"
  using assms by (simp add: forgetPassword_def action_defs storage_defs user_of_def Let_def)

lemma recover_unknown_user:
  assumes "user_of w (email_address body) = None"
  shows "recover env body w =
    (Inl (BadRequest (''There is no account registered with email address '' @ email_address body @ ''.'')),
     w\<lparr>snapshot := None, calls := calls w @ [StartTransaction, FindOne, Rollback]\<rparr>)"
  using assms by (simp add: recover_def action_defs storage_defs user_of_def)

lemma recover_unknown_token:
  assumes "user_of w (email_address body) = Some user"
    and "token_of w (token body) = None"
  shows "recover env body w =
    (Inl (BadRequest ''Your recovery token is invalid. Please re-check your activation link!''),
     w\<lparr>snapshot := None, calls := calls w @ [StartTransaction, FindOne, FindOne, Rollback]\<rparr>)"
  using assms by (simp add: recover_def action_defs storage_defs user_of_def token_of_def)

lemma recover_foreign_token:
  assumes "user_of w (email_address body) = Some user"
    and "token_of w (token body) = Some tok"
    and "t_user_id tok \<noteq> u_id user"
  shows "recover env body w =
    (Inl (BadRequest ''Your recovery token is invalid. Please re-check your activation link!''),
     w\<lparr>snapshot := None, calls := calls w @ [StartTransaction, FindOne, FindOne, Rollback]\<rparr>)"
  using assms by (simp add: recover_def action_defs storage_defs user_of_def token_of_def)

lemma recover_mismatch:
  assumes "user_of w (email_address body) = Some user"
    and "token_of w (token body) = Some tok"
    and "t_user_id tok = u_id user"
    and "password body \<noteq> password_confirmation body"
  shows "recover env body w =
    (Inl (BadRequest ''Your password did not match confirmation.''),
     w\<lparr>snapshot := None, calls := calls w @ [StartTransaction, FindOne, FindOne, Rollback]\<rparr>)"
  using assms by (simp add: recover_def action_defs storage_defs user_of_def token_of_def)

lemma recover_accepted:
  assumes "user_of w (email_address body) = Some user"
    and "token_of w (token body) = Some tok"
    and "t_user_id tok = u_id user"
    and "password body = password_confirmation body"
  shows "recover env body w =
    (Inr ''Your account has been successfully recovered. You now may sign in with newly created passwords.'',
     w\<lparr>db := \<lparr>users = map (\<lambda>u. if u_id u = u_id user
                                then user\<lparr>u_password := hashSync env (salted w) (password body) 10\<rparr>
                                else u) (users (db w)),
               tokens = filter (\<lambda>t. t_id t \<noteq> token body) (tokens (db w))\<rparr>,
       snapshot := None,
       calls := calls w @ [StartTransaction, FindOne, FindOne, Save, Remove, Commit],
       salted := Suc (salted w)\<rparr>)"
proof -
  from assms(1) have "user \<in> set (users (db w))"
    by (auto simp: user_of_def dest: find_Some_mem)
  then have "u_id user \<in> u_id ` set (users (db w))" by (rule imageI)
  moreover from assms(2) have "t_id tok = token body"
    by (auto simp: token_of_def dest: find_Some_mem)
  ultimately show ?thesis
    using assms by (simp add: recover_def action_defs storage_defs Let_def user_of_def token_of_def)
qed


lemma owned_token_stored_iff:
  assumes "unique_keys (db w)"
  shows "owned_token_stored w k u \<longleftrightarrow>
         (case token_of w k of None \<Rightarrow> False | Some t \<Rightarrow> t_user_id t = u_id u)"
proof (cases "token_of w k")
  case None
  then have "k \<notin> set (map t_id (tokens (db w)))"
    by (simp add: token_of_None token_exists_def)
  then have "\<not> owned_token_stored w k u"
    by (force simp: owned_token_stored_def)
  with None show ?thesis by simp
next
  case (Some t)
  then have mem: "t \<in> set (tokens (db w))" and id: "t_id t = k"
    by (auto simp: token_of_def dest: find_Some_mem)
  have "owned_token_stored w k u \<longleftrightarrow> t_user_id t = u_id u"
  proof
    assume "owned_token_stored w k u"
    then obtain t' where t': "t' \<in> set (tokens (db w))" "t_id t' = k" "t_user_id t' = u_id u"
      by (auto simp: owned_token_stored_def)
    from token_of_stored [OF assms t'(1)] t'(2) Some have "t' = t" by simp
    with t'(3) show "t_user_id t = u_id u" by simp
  next
    assume "t_user_id t = u_id u"
    with mem id show "owned_token_stored w k u"
      by (force simp: owned_token_stored_def)
  qed
  with Some show ?thesis by simp
qed

lemma signIn_fails_iff:
  "isl (fst (signIn env body w)) \<longleftrightarrow>
     (case user_of w (email_address body) of
        None \<Rightarrow> True
      | Some user \<Rightarrow> compareSync env (password body) (u_password user))"
  by (simp add: signIn_result split: option.splits)

section \<open>Transactions of the four operations that open one\<close>

lemma register_transactional:
  "transactional (\<not> isl (fst (register env body w))) (made w (snd (register env body w)))"
proof (cases "test emailRegExp (email_address body)")
  case False
  then show ?thesis by (simp add: register_invalid_email made_def transactional_def)
next
  case valid: True
  show ?thesis
  proof (cases "user_of w (email_address body)")
    case (Some user)
    with valid show ?thesis by (simp add: register_known_email made_def transactional_def)
  next
    case None
    show ?thesis
    proof (cases "password body = password_confirmation body")
      case True
      with valid None show ?thesis
        by (simp add: register_accepted Let_def made_def transactional_def)
    next
      case False
      with valid None show ?thesis
        by (simp add: register_mismatch made_def transactional_def)
    qed
  qed
qed

lemma activate_transactional:
  "transactional (\<not> isl (fst (activate env body w))) (made w (snd (activate env body w)))"
proof (cases "user_of w (email_address body)")
  case None
  then show ?thesis by (simp add: activate_unknown_user made_def transactional_def)
next
  case (Some user)
  show ?thesis
  proof (cases "token_of w (token body)")
    case None
    with Some show ?thesis by (simp add: activate_unknown_token made_def transactional_def)
  next
    case tok: (Some t)
    show ?thesis
    proof (cases "t_user_id t = u_id user")
      case True
      with Some tok show ?thesis by (simp add: activate_own_token made_def transactional_def)
    next
      case False
      with Some tok show ?thesis by (simp add: activate_foreign_token made_def transactional_def)
    qed
  qed
qed

lemma forgetPassword_transactional:
  "transactional (\<not> isl (fst (forgetPassword env body w)))
     (made w (snd (forgetPassword env body w)))"
proof (cases "user_of w (email_address body)")
  case None
  then show ?thesis by (simp add: forgetPassword_unknown_user made_def transactional_def)
next
  case (Some user)
  then show ?thesis
    by (simp add: forgetPassword_known_user Let_def made_def transactional_def)
qed

lemma recover_transactional:
  "transactional (\<not> isl (fst (recover env body w))) (made w (snd (recover env body w)))"
proof (cases "user_of w (email_address body)")
  case None
  then show ?thesis by (simp add: recover_unknown_user made_def transactional_def)
next
  case (Some user)
  show ?thesis
  proof (cases "token_of w (token body)")
    case None
    with Some show ?thesis by (simp add: recover_unknown_token made_def transactional_def)
  next
    case tok: (Some t)
    show ?thesis
    proof (cases "t_user_id t = u_id user")
      case False
      with Some tok show ?thesis by (simp add: recover_foreign_token made_def transactional_def)
    next
      case True
      show ?thesis
      proof (cases "password body = password_confirmation body")
        case same: True
        with Some tok True show ?thesis
          by (simp add: recover_accepted made_def transactional_def)
      next
        case False
        with Some tok True show ?thesis
          by (simp add: recover_mismatch made_def transactional_def)
      qed
    qed
  qed
qed

lemma failure_restores_storage:
  "isl (fst (register env body w)) \<Longrightarrow> db (snd (register env body w)) = db w"
  "isl (fst (activate env body w)) \<Longrightarrow> db (snd (activate env body w)) = db w"
  "isl (fst (forgetPassword env body w)) \<Longrightarrow> db (snd (forgetPassword env body w)) = db w"
  "isl (fst (recover env body w)) \<Longrightarrow> db (snd (recover env body w)) = db w"
  by (auto simp add: register_def activate_def forgetPassword_def recover_def action_defs
      storage_defs Let_def split: option.splits if_splits)

text \<open>\<open>register\<close> keeps the e-mail addresses of the storage distinct.\<close>

lemma register_keeps_emails_unique:
  assumes "distinct (map u_email_address (users (db w)))"
  shows "distinct (map u_email_address (users (db (snd (register env body w)))))"
proof (cases "test emailRegExp (email_address body)")
  case False
  with assms show ?thesis by (simp add: register_invalid_email)
next
  case valid: True
  show ?thesis
  proof (cases "user_of w (email_address body)")
    case (Some user)
    with assms valid show ?thesis by (simp add: register_known_email)
  next
    case None
    then have fresh: "email_address body \<notin> set (map u_email_address (users (db w)))"
      by (simp add: user_of_None user_exists_def)
    show ?thesis
    proof (cases "password body = password_confirmation body")
      case True
      with assms fresh show ?thesis
        by (simp add: register_accepted [OF valid None True] Let_def new_User_def)
    next
      case False
      with assms show ?thesis by (simp add: register_mismatch [OF valid None False])
    qed
  qed
qed

section \<open>register\<close>

text \<open>
  C4.  A registration whose e-mail address matches the pattern and belongs to no User, and
  whose password equals its confirmation, succeeds: it returns the confirmation message,
  appends exactly one User to the storage, inactive and with the digest of the password in
  its password column, appends exactly one Token whose \<open>user_id\<close> is the id of that User,
  sends exactly one mail (the activation mail), and commits.
\<close>

theorem register_fresh_email:
  assumes "test emailRegExp (email_address body)"
    and "\<not> user_exists w (email_address body)"
    and "password body = password_confirmation body"
  shows "(let user = new_User (primary_key env (generated w)) (given_name body) (maiden_name body)
                       (email_address body) (hashSync env (salted w) (password body) 10);
              tok = \<lparr>t_id = primary_key env (Suc (generated w)), t_user_id = u_id user\<rparr>;
              w' = snd (register env body w)
          in fst (register env body w) = Inr ''You are successfully registered. Please check your email inbox to activate your account.''
           \<and> users (db w') = users (db w) @ [user]
           \<and> u_is_activated user = False
           \<and> u_password user = hashSync env (salted w) (password body) 10
           \<and> tokens (db w') = tokens (db w) @ [tok]
           \<and> t_user_id tok = u_id user
           \<and> outbox w' = outbox w @ [activation_mail env user tok]
           \<and> count_list (made w w') Send = 1
           \<and> snapshot w' = None)"
proof -
  from assms(2) have "user_of w (email_address body) = None" by (simp add: user_of_None)
  from register_accepted [OF assms(1) this assms(3), of env]
  show ?thesis by (simp add: Let_def new_User_def made_def)
qed

theorem register_fresh_email_witness:
  "test emailRegExp (email_address ann) \<and> \<not> user_exists empty_world (email_address ann)
   \<and> password ann = password_confirmation ann
   \<and> fst (register double ann empty_world) = Inr ''You are successfully registered. Please check your email inbox to activate your account.''
   \<and> users (db (snd (register double ann empty_world))) = [ann_row]
   \<and> tokens (db (snd (register double ann empty_world))) = [\<lparr>t_id = ''kx'', t_user_id = ''k''\<rparr>]
   \<and> length (outbox (snd (register double ann empty_world))) = 1"
proof -
  have valid: "test emailRegExp (email_address ann)" by (simp add: ann_def no_body_def pattern_defs)
  have fresh: "\<not> user_exists empty_world (email_address ann)" by (simp add: user_exists_def empty_world_def)
  have same: "password ann = password_confirmation ann" by (simp add: ann_def no_body_def)
  from register_fresh_email [OF valid fresh same, of double] valid fresh same
  show ?thesis by (simp add: Let_def double_defs new_User_def)
qed

section \<open>register with a mismatched confirmation\<close>

text \<open>
  C9.  A registration whose e-mail address matches the pattern and belongs to no User, but
  whose password differs from its confirmation, fails with the \<open>BadRequest\<close> (status 400,
  the specification's InvalidInput) "Your password did not match confirmation."; the Users
  of the storage are the ones it had before, and no mail is sent.
\<close>

theorem register_mismatched_confirmation:
  assumes "test emailRegExp (email_address body)"
    and "\<not> user_exists w (email_address body)"
    and "password body \<noteq> password_confirmation body"
  shows "fst (register env body w) = Inl (BadRequest ''Your password did not match confirmation.'')
       \<and> users (db (snd (register env body w))) = users (db w)
       \<and> outbox (snd (register env body w)) = outbox w
       \<and> count_list (made w (snd (register env body w))) Send = 0"
proof -
  from assms(2) have "user_of w (email_address body) = None" by (simp add: user_of_None)
  from register_mismatch [OF assms(1) this assms(3), of env]
  show ?thesis by (simp add: made_def)
qed

theorem register_mismatched_confirmation_witness:
  "test emailRegExp (email_address (ann\<lparr>password := ''a'', password_confirmation := ''b''\<rparr>))
   \<and> \<not> user_exists empty_world (email_address (ann\<lparr>password := ''a'', password_confirmation := ''b''\<rparr>))
   \<and> password (ann\<lparr>password := ''a'', password_confirmation := ''b''\<rparr>)
     \<noteq> password_confirmation (ann\<lparr>password := ''a'', password_confirmation := ''b''\<rparr>)
   \<and> fst (register double (ann\<lparr>password := ''a'', password_confirmation := ''b''\<rparr>) empty_world)
     = Inl (BadRequest ''Your password did not match confirmation.'')
   \<and> users (db (snd (register double (ann\<lparr>password := ''a'', password_confirmation := ''b''\<rparr>) empty_world))) = []
   \<and> outbox (snd (register double (ann\<lparr>password := ''a'', password_confirmation := ''b''\<rparr>) empty_world)) = []"
proof -
  let ?b = "ann\<lparr>password := ''a'', password_confirmation := ''b''\<rparr>"
  have valid: "test emailRegExp (email_address ?b)" by (simp add: ann_def no_body_def pattern_defs)
  have fresh: "\<not> user_exists empty_world (email_address ?b)" by (simp add: user_exists_def empty_world_def)
  have differ: "password ?b \<noteq> password_confirmation ?b" by simp
  from register_mismatched_confirmation [OF valid fresh differ, of double] valid fresh differ
  show ?thesis by (simp add: empty_world_def)
qed


section \<open>An unknown e-mail address\<close>

text \<open>
  C3, as stated: for an e-mail address that belongs to no User, \<open>activate\<close>,
  \<open>forgetPassword\<close> and \<open>recover\<close> fail with a \<open>NotFound\<close> error.  The controller throws
  \<open>BadRequest\<close> (status 400) there, as it does for every failure; \<open>NotFound\<close> (status 404)
  is imported and never thrown.  On the empty storage, for bob@x.com, none of the three
  results is a \<open>NotFound\<close>.
\<close>

theorem unknown_email_is_not_NotFound:
  "\<not> user_exists empty_world (email_address bob)
   \<and> fst (activate double bob empty_world)
       = Inl (BadRequest ''There is no account registered with email address bob@x.com.'')
   \<and> \<not> fails_with_NotFound (fst (activate double bob empty_world))
   \<and> \<not> fails_with_NotFound (fst (forgetPassword double bob empty_world))
   \<and> \<not> fails_with_NotFound (fst (recover double bob empty_world))
   \<and> status (BadRequest ''There is no account registered with email address bob@x.com.'') = 400"
proof -
  have none: "user_of empty_world (email_address bob) = None"
    by (simp add: user_of_def empty_world_def)
  show ?thesis
    by (simp add: activate_unknown_user [OF none] forgetPassword_unknown_user [OF none]
        recover_unknown_user [OF none] fails_with_NotFound_def user_exists_def)
      (simp add: bob_def no_body_def empty_world_def)
qed

text \<open>
  C3, amended: for an e-mail address that belongs to no User, \<open>activate\<close>,
  \<open>forgetPassword\<close> and \<open>recover\<close> each fail with the \<open>BadRequest\<close> (status 400) whose
  message is "There is no account registered with email address ", the address, and ".".
\<close>

theorem unknown_email_is_BadRequest:
  assumes "\<not> user_exists w (email_address body)"
  shows "fst (activate env body w) = Inl (BadRequest
           (''There is no account registered with email address '' @ email_address body @ ''.''))
       \<and> fst (forgetPassword env body w) = Inl (BadRequest
           (''There is no account registered with email address '' @ email_address body @ ''.''))
       \<and> fst (recover env body w) = Inl (BadRequest
           (''There is no account registered with email address '' @ email_address body @ ''.''))"
proof -
  from assms have none: "user_of w (email_address body) = None" by (simp add: user_of_None)
  show ?thesis
    by (simp add: activate_unknown_user [OF none] forgetPassword_unknown_user [OF none]
        recover_unknown_user [OF none])
qed

theorem unknown_email_is_BadRequest_witness:
  "\<not> user_exists ann_registered (email_address bob)
   \<and> fst (activate double bob ann_registered)
       = Inl (BadRequest ''There is no account registered with email address bob@x.com.'')
   \<and> fst (forgetPassword double bob ann_registered)
       = Inl (BadRequest ''There is no account registered with email address bob@x.com.'')
   \<and> fst (recover double bob ann_registered)
       = Inl (BadRequest ''There is no account registered with email address bob@x.com.'')"
proof -
  have absent: "\<not> user_exists ann_registered (email_address bob)"
    by (simp add: user_exists_def double_defs)
  from unknown_email_is_BadRequest [OF absent, of double] absent
  show ?thesis by (simp add: bob_def no_body_def)
qed

section \<open>activate consumes its token\<close>

text \<open>
  C5.  Whenever \<open>activate\<close> succeeds, in the resulting state no Token with the given id
  exists any more, the User of the e-mail address has \<open>is_activated\<close> true, and a second
  \<open>activate\<close> with the same e-mail address and token id fails.
\<close>

theorem activate_consumes_token:
  assumes "activate env body w = (Inr msg, w')"
  shows "\<not> token_exists w' (token body)
       \<and> map_option u_is_activated (user_of w' (email_address body)) = Some True
       \<and> isl (fst (activate env body w'))"
proof -
  from assms have ok: "fst (activate env body w) = Inr msg"
    and w': "w' = snd (activate env body w)"
    by simp_all
  obtain user where user: "user_of w (email_address body) = Some user"
    using ok activate_unknown_user [where w = w and body = body and env = env]
    by (cases "user_of w (email_address body)") auto
  obtain tok where tok: "token_of w (token body) = Some tok"
    using ok activate_unknown_token [OF user, where env = env]
    by (cases "token_of w (token body)") auto
  have own: "t_user_id tok = u_id user"
  proof (rule ccontr)
    assume "t_user_id tok \<noteq> u_id user"
    from activate_foreign_token [OF user tok this, where env = env] ok
    show False by simp
  qed
  note after = activate_own_token [OF user tok own, where env = env]
  have gone: "\<not> token_exists w' (token body)"
    by (auto simp add: w' after token_exists_def)
  from user have "u_email_address user = email_address body"
    by (auto simp: user_of_def dest: find_Some_mem)
  with user have activated:
    "map_option u_is_activated (user_of w' (email_address body)) = Some True"
    by (simp add: w' after user_of_def find_after_update)
  have again: "isl (fst (activate env body w'))"
  proof (cases "user_of w' (email_address body)")
    case None
    then show ?thesis by (simp add: activate_unknown_user)
  next
    case (Some u)
    moreover from gone have "token_of w' (token body) = None" by (simp add: token_of_None)
    ultimately show ?thesis by (simp add: activate_unknown_token)
  qed
  from gone activated again show ?thesis by simp
qed

theorem activate_consumes_token_witness:
  "activate double (ann\<lparr>token := ''kx''\<rparr>) ann_registered
     = (Inr ''Your account has been successfully activated. You now may sign in to enjoy our services.'',
        snd (activate double (ann\<lparr>token := ''kx''\<rparr>) ann_registered))
   \<and> \<not> token_exists (snd (activate double (ann\<lparr>token := ''kx''\<rparr>) ann_registered)) ''kx''
   \<and> map_option u_is_activated
        (user_of (snd (activate double (ann\<lparr>token := ''kx''\<rparr>) ann_registered)) ''ann@x.com'')
       = Some True
   \<and> isl (fst (activate double (ann\<lparr>token := ''kx''\<rparr>)
               (snd (activate double (ann\<lparr>token := ''kx''\<rparr>) ann_registered))))"
proof -
  let ?b = "ann\<lparr>token := ''kx''\<rparr>"
  have user: "user_of ann_registered (email_address ?b) = Some ann_row"
    by (simp add: user_of_def double_defs)
  have tok: "token_of ann_registered (token ?b) = Some \<lparr>t_id = ''kx'', t_user_id = ''k''\<rparr>"
    by (simp add: token_of_def double_defs)
  have own: "t_user_id \<lparr>t_id = ''kx'', t_user_id = ''k''\<rparr> = u_id ann_row"
    by (simp add: ann_row_def)
  have ok: "activate double ?b ann_registered
     = (Inr ''Your account has been successfully activated. You now may sign in to enjoy our services.'',
        snd (activate double ?b ann_registered))"
    by (simp add: activate_own_token [OF user tok own])
  from activate_consumes_token [OF ok] ok
  show ?thesis by (simp add: ann_def no_body_def)
qed


section \<open>activate with the token of another User\<close>

text \<open>
  C7.  In a storage that keeps the uniqueness invariants of the data model (one User per
  e-mail address, one Token per id): for every stored User \<open>u\<close> and every stored Token
  whose \<open>user_id\<close> is not the id of \<open>u\<close>, \<open>activate\<close> with the e-mail address of \<open>u\<close> and
  the id of that Token fails with the \<open>BadRequest\<close> (status 400, the specification's
  InvalidInput) "Your activation token is invalid. Please re-check your activation link!",
  and the Users of the storage are unchanged: \<open>u\<close> is still the User of its e-mail address,
  with the \<open>is_activated\<close> it had.
\<close>

theorem activate_foreign_token_rejected:
  assumes "unique_keys (db w)"
    and "u \<in> set (users (db w))"
    and "t \<in> set (tokens (db w))"
    and "t_user_id t \<noteq> u_id u"
    and "email_address body = u_email_address u"
    and "token body = t_id t"
  shows "fst (activate env body w) = Inl (BadRequest
           ''Your activation token is invalid. Please re-check your activation link!'')
       \<and> users (db (snd (activate env body w))) = users (db w)
       \<and> user_of (snd (activate env body w)) (u_email_address u) = Some u"
proof -
  have user: "user_of w (email_address body) = Some u"
    using assms(1,2,5) by (simp add: user_of_stored)
  have tok: "token_of w (token body) = Some t"
    using assms(1,3,6) by (simp add: token_of_stored)
  from activate_foreign_token [OF user tok assms(4), where env = env] user assms(5)
  show ?thesis by (simp add: user_of_def)
qed

theorem activate_foreign_token_rejected_witness:
  "unique_keys (db both_registered)
   \<and> ann_row \<in> set (users (db both_registered))
   \<and> \<lparr>t_id = ''kxxx'', t_user_id = ''kxx''\<rparr> \<in> set (tokens (db both_registered))
   \<and> t_user_id \<lparr>t_id = ''kxxx'', t_user_id = ''kxx''\<rparr> \<noteq> u_id ann_row
   \<and> fst (activate double (ann\<lparr>token := ''kxxx''\<rparr>) both_registered)
       = Inl (BadRequest ''Your activation token is invalid. Please re-check your activation link!'')
   \<and> users (db (snd (activate double (ann\<lparr>token := ''kxxx''\<rparr>) both_registered)))
       = [ann_row, bob_row]
   \<and> u_is_activated ann_row = False"
proof -
  let ?t = "\<lparr>t_id = ''kxxx'', t_user_id = ''kxx''\<rparr>"
  let ?b = "ann\<lparr>token := ''kxxx''\<rparr>"
  have keys: "unique_keys (db both_registered)" by (simp add: unique_keys_def double_defs)
  have u: "ann_row \<in> set (users (db both_registered))" by (simp add: both_registered_def)
  have t: "?t \<in> set (tokens (db both_registered))" by (simp add: both_registered_def)
  have foreign: "t_user_id ?t \<noteq> u_id ann_row" by (simp add: ann_row_def)
  have email: "email_address ?b = u_email_address ann_row" by (simp add: ann_def ann_row_def no_body_def)
  have id: "token ?b = t_id ?t" by simp
  from activate_foreign_token_rejected [OF keys u t foreign email id, of double] keys u t foreign
  show ?thesis by (simp add: both_registered_def ann_row_def)
qed

section \<open>Tokens carry no purpose\<close>

text \<open>
  C10.  A Token has an id and an owner and nothing else, whichever operation created it.
  In a storage that keeps the uniqueness invariants of the data model, for every stored
  User \<open>u\<close> and every token id: \<open>activate\<close> with the e-mail address of \<open>u\<close> succeeds
  exactly when a stored Token has that id and \<open>user_id\<close> equal to the id of \<open>u\<close>;
  \<open>recover\<close> raises its invalid-token error exactly when no such Token is stored, and
  succeeds exactly when such a Token is stored and the password equals its confirmation.
  The witness runs \<open>activate\<close> on the Token that \<open>forgetPassword\<close> created and \<open>recover\<close> on
  the Token of the registration.
\<close>

theorem token_acceptance:
  assumes "unique_keys (db w)"
    and "u \<in> set (users (db w))"
    and "email_address body = u_email_address u"
  shows "(\<not> isl (fst (activate env body w)) \<longleftrightarrow> owned_token_stored w (token body) u)
       \<and> (fst (recover env body w) \<noteq> Inl (BadRequest
             ''Your recovery token is invalid. Please re-check your activation link!'')
            \<longleftrightarrow> owned_token_stored w (token body) u)
       \<and> (\<not> isl (fst (recover env body w))
            \<longleftrightarrow> owned_token_stored w (token body) u
                \<and> password body = password_confirmation body)"
proof -
  have user: "user_of w (email_address body) = Some u"
    using assms by (simp add: user_of_stored)
  note owned = owned_token_stored_iff [OF assms(1), of "token body" u]
  show ?thesis
  proof (cases "token_of w (token body)")
    case None
    with owned activate_unknown_token [OF user None, where env = env]
      recover_unknown_token [OF user None, where env = env]
    show ?thesis by simp
  next
    case (Some t)
    show ?thesis
    proof (cases "t_user_id t = u_id u")
      case False
      with owned Some activate_foreign_token [OF user Some False, where env = env]
        recover_foreign_token [OF user Some False, where env = env]
      show ?thesis by simp
    next
      case True
      show ?thesis
      proof (cases "password body = password_confirmation body")
        case same: True
        with owned Some True activate_own_token [OF user Some True, where env = env]
          recover_accepted [OF user Some True same, where env = env]
        show ?thesis by simp
      next
        case differ: False
        with owned Some True activate_own_token [OF user Some True, where env = env]
          recover_mismatch [OF user Some True differ, where env = env]
        show ?thesis by simp
      qed
    qed
  qed
qed

theorem token_acceptance_witness:
  "unique_keys (db (snd (forgetPassword double ann ann_registered)))
   \<and> ann_row \<in> set (users (db (snd (forgetPassword double ann ann_registered))))
   \<and> tokens (db (snd (forgetPassword double ann ann_registered)))
       = [\<lparr>t_id = ''kx'', t_user_id = ''k''\<rparr>, \<lparr>t_id = ''kxx'', t_user_id = ''k''\<rparr>]
   \<and> \<not> isl (fst (activate double (ann\<lparr>token := ''kxx''\<rparr>)
                 (snd (forgetPassword double ann ann_registered))))
   \<and> \<not> isl (fst (recover double (ann\<lparr>token := ''kx''\<rparr>)
                 (snd (forgetPassword double ann ann_registered))))
   \<and> isl (fst (activate double (ann\<lparr>token := ''kxxx''\<rparr>)
                 (snd (forgetPassword double ann ann_registered))))"
proof -
  let ?w = "snd (forgetPassword double ann ann_registered)"
  have user: "user_of ann_registered (email_address ann) = Some ann_row"
    by (simp add: user_of_def double_defs)
  have db: "db ?w = \<lparr>users = [ann_row],
      tokens = [\<lparr>t_id = ''kx'', t_user_id = ''k''\<rparr>, \<lparr>t_id = ''kxx'', t_user_id = ''k''\<rparr>]\<rparr>"
    by (simp add: forgetPassword_known_user [OF user] Let_def)
      (simp add: double_defs numeral_2_eq_2)
  have keys: "unique_keys (db ?w)" by (simp add: db unique_keys_def)
  have u: "ann_row \<in> set (users (db ?w))" by (simp add: db)
  have e: "email_address (ann\<lparr>token := k\<rparr>) = u_email_address ann_row" for k
    by (simp add: ann_def ann_row_def no_body_def)
  have own: "owned_token_stored ?w ''kxx'' ann_row" "owned_token_stored ?w ''kx'' ann_row"
    "\<not> owned_token_stored ?w ''kxxx'' ann_row"
    by (simp_all add: owned_token_stored_def db ann_row_def)
  have same: "password (ann\<lparr>token := ''kx''\<rparr>) = password_confirmation (ann\<lparr>token := ''kx''\<rparr>)"
    by (simp add: ann_def no_body_def)
  from token_acceptance [OF keys u e [of "''kxx''"], where env = double]
    token_acceptance [OF keys u e [of "''kx''"], where env = double]
    token_acceptance [OF keys u e [of "''kxxx''"], where env = double] own same keys u db
  show ?thesis by simp
qed

section \<open>signIn\<close>

text \<open>
  C1.  The claim: \<open>signIn\<close> fails exactly when no User has the e-mail address or the
  password does not verify against the stored digest, and otherwise returns the signed
  token.  The controller throws when \<open>compareSync\<close> answers true: with Ann registered
  under the password Secret123!, \<open>signIn\<close> with Secret123! fails with the sign-in error,
  and \<open>signIn\<close> with the password "wrong", which does not verify, returns the token signed
  over her record without the password.
\<close>

theorem signIn_rejects_the_stored_password:
  "user_of ann_registered (email_address ann) = Some ann_row
   \<and> u_password ann_row = hashSync double 0 (password ann) 10
   \<and> compareSync double (password ann) (u_password ann_row)
   \<and> fst (signIn double ann ann_registered)
       = Inl (BadRequest ''Sign in failed! Please check your email address or password.'')
   \<and> \<not> compareSync double ''wrong'' (u_password ann_row)
   \<and> fst (signIn double (ann\<lparr>password := ''wrong''\<rparr>) ann_registered)
       = Inr (sign double
               [(''_id'', Str ''k''), (''given_name'', Str ''Ann''), (''maiden_name'', Str ''Lee''),
                (''email_address'', Str ''ann@x.com''), (''is_activated'', Bool False)]
               (secret double))"
  by (simp add: signIn_result user_of_def omit_def object_of_def double_defs)

text \<open>
  C2.  The claim: each of the five operations opens a transaction before any read or
  write, rolls back on failure and commits exactly once on success.  \<open>register\<close>,
  \<open>activate\<close>, \<open>forgetPassword\<close> and \<open>recover\<close> do (the four lemmas on \<open>transactional\<close>
  above); \<open>signIn\<close> makes one call, the \<open>findOne\<close>, and neither opens, commits nor rolls
  back a transaction, whatever the request and whatever its outcome.
\<close>

theorem signIn_opens_no_transaction:
  "made w (snd (signIn env body w)) = [FindOne]
   \<and> \<not> transactional ok (made w (snd (signIn env body w)))
   \<and> snapshot (snd (signIn env body w)) = snapshot w"
  by (simp add: signIn_result made_def transactional_def)

text \<open>
  C6.  The claim: after a successful \<open>recover\<close>, \<open>signIn\<close> with the new password succeeds,
  \<open>signIn\<close> with the previous password fails, and the consumed Token is gone.  With Ann
  registered under Secret123! and recovering with her token \<open>kx\<close> to NewSecret456!:
  \<open>recover\<close> succeeds and the token is gone, but \<open>signIn\<close> with NewSecret456! fails and
  \<open>signIn\<close> with Secret123! succeeds.
\<close>

theorem signIn_after_recover:
  "fst (recover double (ann\<lparr>token := ''kx'', password := ''NewSecret456!'',
                            password_confirmation := ''NewSecret456!''\<rparr>) ann_registered)
     = Inr ''Your account has been successfully recovered. You now may sign in with newly created passwords.''
   \<and> fst (signIn double (ann\<lparr>password := ''NewSecret456!''\<rparr>)
       (snd (recover double (ann\<lparr>token := ''kx'', password := ''NewSecret456!'',
                                  password_confirmation := ''NewSecret456!''\<rparr>) ann_registered)))
     = Inl (BadRequest ''Sign in failed! Please check your email address or password.'')
   \<and> \<not> isl (fst (signIn double (ann\<lparr>password := ''Secret123!''\<rparr>)
       (snd (recover double (ann\<lparr>token := ''kx'', password := ''NewSecret456!'',
                                  password_confirmation := ''NewSecret456!''\<rparr>) ann_registered))))
   \<and> \<not> token_exists
       (snd (recover double (ann\<lparr>token := ''kx'', password := ''NewSecret456!'',
                                  password_confirmation := ''NewSecret456!''\<rparr>) ann_registered)) ''kx''"
proof -
  let ?b = "ann\<lparr>token := ''kx'', password := ''NewSecret456!'',
                password_confirmation := ''NewSecret456!''\<rparr>"
  have user: "user_of ann_registered (email_address ?b) = Some ann_row"
    by (simp add: user_of_def double_defs)
  have tok: "token_of ann_registered (token ?b) = Some \<lparr>t_id = ''kx'', t_user_id = ''k''\<rparr>"
    by (simp add: token_of_def double_defs)
  have own: "t_user_id \<lparr>t_id = ''kx'', t_user_id = ''k''\<rparr> = u_id ann_row"
    by (simp add: ann_row_def)
  have same: "password ?b = password_confirmation ?b" by simp
  note after = recover_accepted [OF user tok own same, where env = double]
  show ?thesis
    unfolding after by (simp add: signIn_result user_of_def token_exists_def double_defs)
qed

text \<open>
  C8.  The claim: \<open>signIn\<close> with the e-mail address of a User and a password that does not
  match, and \<open>signIn\<close> with an e-mail address of no User, both fail with the same message.
  With Ann registered, \<open>signIn\<close> for ann@x.com with the password "guess", which does not
  verify, does not fail: it returns a token; \<open>signIn\<close> for bob@x.com fails.
\<close>

theorem signIn_tells_wrong_password_from_unknown_email:
  "user_exists ann_registered ''ann@x.com''
   \<and> \<not> compareSync double ''guess'' (u_password ann_row)
   \<and> \<not> isl (fst (signIn double (ann\<lparr>password := ''guess''\<rparr>) ann_registered))
   \<and> \<not> user_exists ann_registered ''bob@x.com''
   \<and> fst (signIn double (ann\<lparr>email_address := ''bob@x.com'', password := ''guess''\<rparr>) ann_registered)
       = Inl (BadRequest ''Sign in failed! Please check your email address or password.'')"
  by (simp add: signIn_result user_of_def user_exists_def double_defs)

end
